theory Spec2Isabelle
  imports Main
begin

section \<open>Values of the host language\<close>

text \<open>
  The store keeps values of type \<^verbatim>\<open>unknown\<close>. The model has one constructor per kind
  of JavaScript value that the code under study can tell apart: by \<^verbatim>\<open>typeof\<close>, by
  comparison with \<^verbatim>\<open>undefined\<close> and \<^verbatim>\<open>null\<close>, and by whether
  \<^verbatim>\<open>JSON.stringify\<close> throws on it. Numbers are modelled by the integers (exact for
  the version counter, which starts at 0 and is only incremented). An object is the list
  of its own enumerable properties in \<^verbatim>\<open>Object.entries\<close> order. \<open>JCyclic\<close> stands for a
  container that reaches itself through its own properties, as in
  \<^verbatim>\<open>const circular = { prop: "value" }; circular.self = circular\<close>.
\<close>

datatype jsval =
    JUndefined
  | JNull
  | JBool bool
  | JNum int
  | JStr string
  | JBigInt int
  | JFunction
  | JArr "jsval list"
  | JObj "(string \<times> jsval) list"
  | JCyclic

text \<open>The \<^verbatim>\<open>typeof\<close> operator.\<close>

fun typeof :: "jsval \<Rightarrow> string" where
  "typeof JUndefined = ''undefined''"
| "typeof JNull = ''object''"
| "typeof (JBool b) = ''boolean''"
| "typeof (JNum n) = ''number''"
| "typeof (JStr s) = ''string''"
| "typeof (JBigInt n) = ''bigint''"
| "typeof JFunction = ''function''"
| "typeof (JArr xs) = ''object''"
| "typeof (JObj ps) = ''object''"
| "typeof JCyclic = ''object''"

text \<open>
  When \<^verbatim>\<open>JSON.stringify(value)\<close> throws: on a BigInt and on a circular structure, at any
  depth. On \<^verbatim>\<open>undefined\<close> and on a function it returns \<^verbatim>\<open>undefined\<close> without throwing.
\<close>

fun json_stringify_throws :: "jsval \<Rightarrow> bool" where
  "json_stringify_throws (JBigInt n) = True"
| "json_stringify_throws JCyclic = True"
| "json_stringify_throws (JArr xs) = (\<exists>x \<in> set xs. json_stringify_throws x)"
| "json_stringify_throws (JObj ps) = (\<exists>p \<in> set ps. json_stringify_throws (snd p))"
| "json_stringify_throws v = False"

text \<open>Property access \<^verbatim>\<open>obj[key]\<close> on the entries of an object.\<close>

definition js_prop :: "(string \<times> jsval) list \<Rightarrow> string \<Rightarrow> jsval" where
  "js_prop ps k = (case map_of ps k of None \<Rightarrow> JUndefined | Some v \<Rightarrow> v)"

section \<open>The built-in Map\<close>

text \<open>
  A \<^verbatim>\<open>Map<string, unknown>\<close> iterates in insertion order: \<^verbatim>\<open>set\<close> on a key that is
  present replaces the value in place, on a new key it appends. The model is the list of
  entries in iteration order. A key stored with the value \<^verbatim>\<open>undefined\<close> is present.
\<close>

type_synonym jsmap = "(string \<times> jsval) list"

primrec Map_set :: "jsmap \<Rightarrow> string \<Rightarrow> jsval \<Rightarrow> jsmap" where
  "Map_set [] k v = [(k, v)]"
| "Map_set (p # ps) k v = (if fst p = k then (k, v) # ps else p # Map_set ps k v)"

definition Map_get :: "jsmap \<Rightarrow> string \<Rightarrow> jsval" where
  "Map_get m k = (case map_of m k of None \<Rightarrow> JUndefined | Some v \<Rightarrow> v)"

definition Map_has :: "jsmap \<Rightarrow> string \<Rightarrow> bool" where
  "Map_has m k = (map_of m k \<noteq> None)"

definition Map_delete :: "jsmap \<Rightarrow> string \<Rightarrow> jsmap" where
  "Map_delete m k = filter (\<lambda>p. fst p \<noteq> k) m"

section \<open>Types of the store (types/index.ts)\<close>

text \<open>
  What a callback supplied by the user threw, and what the store or an adapter raises.
  \<open>Error msg\<close> is \<^verbatim>\<open>throw new Error(msg)\<close> executed by the store itself; \<open>Thrown t\<close> is
  an exception raised by a validator or an adapter and passed on unchanged.
\<close>

type_synonym thrown = string

datatype error = Error string | Thrown thrown

type_synonym 'r result = "error + 'r"

text \<open>
  \<^verbatim>\<open>ValueValidator<T> = (input: unknown) => T\<close>: returns a value or throws. Validators
  and hooks are taken as functions of their arguments; a callback that calls the store
  again while it runs is not described.
\<close>

type_synonym validator = "jsval \<Rightarrow> thrown + jsval"

text \<open>
  A hook is \<^verbatim>\<open>(...) => void | Promise<void>\<close>. Its call returns, returns a promise
  (that fulfils or rejects later), or throws.
\<close>

datatype settled = Fulfilled | Rejected thrown

datatype hook_outcome = Returns | ReturnsPromise settled | Throws thrown

record KeyValueStoreHooks =
  onUpdate :: "(string \<Rightarrow> jsval \<Rightarrow> hook_outcome) option"
  onDelete :: "(string \<Rightarrow> hook_outcome) option"
  onBackup :: "(int \<Rightarrow> int \<Rightarrow> hook_outcome) option"

text \<open>
  \<^verbatim>\<open>KeyValueAdapterWithBackup\<close>: an object with its own state \<open>'a\<close> and the methods
  \<^verbatim>\<open>init\<close>, \<^verbatim>\<open>get\<close>, \<^verbatim>\<open>set\<close>, \<^verbatim>\<open>delete\<close>, and optionally \<^verbatim>\<open>all\<close> and \<^verbatim>\<open>backup\<close>.
  Every method returns the adapter's new state together with what it threw, if anything.
\<close>

record 'a adapter =
  ad_state :: 'a
  ad_init :: "'a \<Rightarrow> thrown option \<times> 'a"
  ad_get :: "'a \<Rightarrow> string \<Rightarrow> (thrown + jsval) \<times> 'a"
  ad_set :: "'a \<Rightarrow> string \<Rightarrow> jsval \<Rightarrow> thrown option \<times> 'a"
  ad_delete :: "'a \<Rightarrow> string \<Rightarrow> thrown option \<times> 'a"
  ad_all :: "('a \<Rightarrow> (thrown + (string \<times> jsval) list) \<times> 'a) option"
  ad_backup :: "('a \<Rightarrow> thrown option \<times> 'a) option"

record 'a KeyValueStoreConfig =
  cfg_adapter :: "'a adapter option"
  cfg_hooks :: "KeyValueStoreHooks option"
  syncIntervalMs :: "int option"
  enableVersioning :: "bool option"

section \<open>The store (key-value-store.ts)\<close>

text \<open>
  The fields of the class, and three traces of what its methods do outside the object:
  the hooks they call, the lines they write with \<^verbatim>\<open>console.error\<close>, and the rejected
  promises they drop without a handler.
\<close>

datatype hook_call = CallUpdate string jsval | CallDelete string | CallBackup int int

record 'a KeyValueStore =
  memoryMap :: jsmap
  adapter :: "'a adapter option"
  hooks :: KeyValueStoreHooks
  version :: int
  syncInterval :: "int option"
  hook_calls :: "hook_call list"
  console_error :: "(string \<times> thrown) list"
  dropped_rejections :: "thrown list"

definition no_hooks :: KeyValueStoreHooks where
  "no_hooks = \<lparr>onUpdate = None, onDelete = None, onBackup = None\<rparr>"

text \<open>
  The constructor. \<^verbatim>\<open>config.hooks ?? {}\<close>; \<^verbatim>\<open>config.enableVersioning ? 0 : -1\<close>; the
  timer is set when \<^verbatim>\<open>syncIntervalMs\<close> is truthy (a number other than 0) and there is
  an adapter.
\<close>

definition store_new :: "'a KeyValueStoreConfig \<Rightarrow> 'a KeyValueStore" where
  "store_new config =
     \<lparr>memoryMap = [],
      adapter = cfg_adapter config,
      hooks = (case cfg_hooks config of None \<Rightarrow> no_hooks | Some h \<Rightarrow> h),
      version = (if enableVersioning config = Some True then 0 else -1),
      syncInterval =
        (case syncIntervalMs config of
           None \<Rightarrow> None
         | Some ms \<Rightarrow> if ms \<noteq> 0 \<and> cfg_adapter config \<noteq> None then Some ms else None),
      hook_calls = [],
      console_error = [],
      dropped_rejections = []\<rparr>"

text \<open>
  \<^verbatim>\<open>try { void hook?.(args) } catch (err) { console.error(label, err) }\<close>.
  Nothing is called when the hook is not defined. A synchronous throw is caught and
  logged. A returned promise is discarded by \<^verbatim>\<open>void\<close>: the call site neither awaits it
  nor attaches a handler, so its rejection does not reach the \<^verbatim>\<open>catch\<close>.
\<close>

definition fire_hook ::
  "string \<Rightarrow> hook_call \<Rightarrow> hook_outcome option \<Rightarrow> 'a KeyValueStore \<Rightarrow> 'a KeyValueStore" where
  "fire_hook label call outcome s =
     (case outcome of
        None \<Rightarrow> s
      | Some Returns \<Rightarrow> s\<lparr>hook_calls := hook_calls s @ [call]\<rparr>
      | Some (ReturnsPromise Fulfilled) \<Rightarrow> s\<lparr>hook_calls := hook_calls s @ [call]\<rparr>
      | Some (ReturnsPromise (Rejected e)) \<Rightarrow>
          s\<lparr>hook_calls := hook_calls s @ [call],
            dropped_rejections := dropped_rejections s @ [e]\<rparr>
      | Some (Throws e) \<Rightarrow>
          s\<lparr>hook_calls := hook_calls s @ [call],
            console_error := console_error s @ [(label, e)]\<rparr>)"

text \<open>\<^verbatim>\<open>get(key, options?)\<close>. It changes nothing.\<close>

definition store_get :: "'a KeyValueStore \<Rightarrow> jsval \<Rightarrow> validator option \<Rightarrow> jsval result" where
  "store_get s key validator =
     (case key of
        JStr k \<Rightarrow>
          (let val = Map_get (memoryMap s) k in
           if val = JUndefined then Inr JUndefined
           else case validator of
                  None \<Rightarrow> Inr val
                | Some f \<Rightarrow> (case f val of Inl e \<Rightarrow> Inl (Thrown e) | Inr w \<Rightarrow> Inr w))
      | _ \<Rightarrow> Inl (Error ''Key must be a string''))"

text \<open>\<^verbatim>\<open>set(key, value, options?)\<close>.\<close>

definition store_set ::
  "'a KeyValueStore \<Rightarrow> jsval \<Rightarrow> jsval \<Rightarrow> validator option \<Rightarrow> jsval result \<times> 'a KeyValueStore" where
  "store_set s key val validator =
     (case key of
        JStr k \<Rightarrow>
          if json_stringify_throws val then (Inl (Error ''Value must be JSON serializable''), s)
          else
            (case (case validator of None \<Rightarrow> Inr val | Some f \<Rightarrow> f val) of
               Inl e \<Rightarrow> (Inl (Thrown e), s)
             | Inr validatedValue \<Rightarrow>
                 (let s1 = s\<lparr>memoryMap := Map_set (memoryMap s) k validatedValue\<rparr>;
                      s2 = (if version s1 \<ge> 0 then s1\<lparr>version := version s1 + 1\<rparr> else s1);
                      s3 = fire_hook ''onUpdate hook failed:'' (CallUpdate k validatedValue)
                             (map_option (\<lambda>h. h k validatedValue) (onUpdate (hooks s2))) s2
                  in (Inr validatedValue, s3)))
      | _ \<Rightarrow> (Inl (Error ''Key must be a string''), s))"

text \<open>\<^verbatim>\<open>delete(key)\<close>.\<close>

definition store_delete :: "'a KeyValueStore \<Rightarrow> jsval \<Rightarrow> unit result \<times> 'a KeyValueStore" where
  "store_delete s key =
     (case key of
        JStr k \<Rightarrow>
          if Map_has (memoryMap s) k then
            (let s1 = s\<lparr>memoryMap := Map_delete (memoryMap s) k\<rparr>;
                 s2 = (if version s1 \<ge> 0 then s1\<lparr>version := version s1 + 1\<rparr> else s1);
                 s3 = fire_hook ''onDelete hook failed:'' (CallDelete k)
                        (map_option (\<lambda>h. h k) (onDelete (hooks s2))) s2
             in (Inr (), s3))
          else (Inr (), s)
      | _ \<Rightarrow> (Inl (Error ''Key must be a string''), s))"

text \<open>One call of \<^verbatim>\<open>adapter.set(key, value)\<close> on the adapter object.\<close>

definition adapter_set :: "'a adapter \<Rightarrow> string \<Rightarrow> jsval \<Rightarrow> thrown option \<times> 'a adapter" where
  "adapter_set a k v = (case ad_set a (ad_state a) k v of (r, st) \<Rightarrow> (r, a\<lparr>ad_state := st\<rparr>))"

text \<open>
  \<^verbatim>\<open>init()\<close>. The loop \<^verbatim>\<open>for (const [k, v] of Object.entries(loadedData))\<close> is
  \<open>load_entries\<close>. An exception of \<^verbatim>\<open>adapter.init()\<close> or \<^verbatim>\<open>adapter.all()\<close> ends
  the method; what the adapter did until then stays done.
\<close>

fun load_entries :: "jsmap \<Rightarrow> (string \<times> jsval) list \<Rightarrow> jsmap" where
  "load_entries m [] = m"
| "load_entries m (p # ps) = load_entries (Map_set m (fst p) (snd p)) ps"

definition store_init :: "'a KeyValueStore \<Rightarrow> unit result \<times> 'a KeyValueStore" where
  "store_init s =
     (case adapter s of
        None \<Rightarrow> (Inr (), s)
      | Some a \<Rightarrow>
          (case ad_init a (ad_state a) of
             (Some e, st1) \<Rightarrow> (Inl (Thrown e), s\<lparr>adapter := Some (a\<lparr>ad_state := st1\<rparr>)\<rparr>)
           | (None, st1) \<Rightarrow>
               (case ad_all a of
                  None \<Rightarrow> (Inr (), s\<lparr>adapter := Some (a\<lparr>ad_state := st1\<rparr>)\<rparr>)
                | Some all \<Rightarrow>
                    (case all st1 of
                       (Inl e, st2) \<Rightarrow>
                         (Inl (Thrown e), s\<lparr>adapter := Some (a\<lparr>ad_state := st2\<rparr>)\<rparr>)
                     | (Inr loadedData, st2) \<Rightarrow>
                         (let s1 = s\<lparr>adapter := Some (a\<lparr>ad_state := st2\<rparr>),
                                     memoryMap := load_entries (memoryMap s) loadedData\<rparr>;
                              maybeVersion = js_prop loadedData ''__version__''
                          in (Inr (),
                              case maybeVersion of
                                JNum n \<Rightarrow> if version s1 \<ge> 0 then s1\<lparr>version := n\<rparr> else s1
                              | _ \<Rightarrow> s1))))))"

text \<open>
  \<^verbatim>\<open>sync()\<close>. The loop over \<^verbatim>\<open>this.memoryMap.entries()\<close> is \<open>sync_entries\<close>; an
  exception of \<^verbatim>\<open>adapter.set\<close> ends it, and the writes made before it stay made.
\<close>

fun sync_entries :: "'a adapter \<Rightarrow> jsmap \<Rightarrow> thrown option \<times> 'a adapter" where
  "sync_entries a [] = (None, a)"
| "sync_entries a (p # ps) =
     (if fst p \<noteq> ''__version__'' then
        (case adapter_set a (fst p) (snd p) of
           (Some e, a1) \<Rightarrow> (Some e, a1)
         | (None, a1) \<Rightarrow> sync_entries a1 ps)
      else sync_entries a ps)"

definition store_sync :: "'a KeyValueStore \<Rightarrow> unit result \<times> 'a KeyValueStore" where
  "store_sync s =
     (case adapter s of
        None \<Rightarrow> (Inr (), s)
      | Some a \<Rightarrow>
          (case (if version s \<ge> 0 then adapter_set a ''__version__'' (JNum (version s))
                 else (None, a)) of
             (Some e, a1) \<Rightarrow> (Inl (Thrown e), s\<lparr>adapter := Some a1\<rparr>)
           | (None, a1) \<Rightarrow>
               (case sync_entries a1 (memoryMap s) of
                  (Some e, a2) \<Rightarrow> (Inl (Thrown e), s\<lparr>adapter := Some a2\<rparr>)
                | (None, a2) \<Rightarrow> (Inr (), s\<lparr>adapter := Some a2\<rparr>))))"

text \<open>\<^verbatim>\<open>createBackup()\<close>; \<open>timestamp\<close> is what \<^verbatim>\<open>Date.now()\<close> returns.\<close>

definition store_createBackup :: "'a KeyValueStore \<Rightarrow> int \<Rightarrow> unit result \<times> 'a KeyValueStore" where
  "store_createBackup s timestamp =
     (case adapter s of
        None \<Rightarrow> (Inr (), s)
      | Some a \<Rightarrow>
          (case ad_backup a of
             None \<Rightarrow> (Inr (), s)
           | Some backup \<Rightarrow>
               (let backupVersion = (if version s \<ge> 0 then version s else 0) in
                case backup (ad_state a) of
                  (Some e, st) \<Rightarrow> (Inl (Thrown e), s\<lparr>adapter := Some (a\<lparr>ad_state := st\<rparr>)\<rparr>)
                | (None, st) \<Rightarrow>
                    (Inr (),
                     fire_hook ''onBackup hook failed:'' (CallBackup timestamp backupVersion)
                       (map_option (\<lambda>h. h timestamp backupVersion) (onBackup (hooks s)))
                       (s\<lparr>adapter := Some (a\<lparr>ad_state := st\<rparr>)\<rparr>)))))"

definition store_getVersion :: "'a KeyValueStore \<Rightarrow> int" where
  "store_getVersion s = version s"

text \<open>\<^verbatim>\<open>dispose()\<close>: the timer, if any, is cleared.\<close>

definition store_dispose :: "'a KeyValueStore \<Rightarrow> 'a KeyValueStore" where
  "store_dispose s = s\<lparr>syncInterval := None\<rparr>"

subsection \<open>Sequences of calls\<close>

text \<open>
  A call of a public method with its arguments, and the state a call leaves behind,
  whether it returns or throws. A tick of the periodic timer is an \<open>OpSync\<close>.
\<close>

datatype op =
    OpInit
  | OpGet jsval "validator option"
  | OpSet jsval jsval "validator option"
  | OpDelete jsval
  | OpSync
  | OpCreateBackup int
  | OpGetVersion
  | OpDispose

fun exec :: "'a KeyValueStore \<Rightarrow> op \<Rightarrow> 'a KeyValueStore" where
  "exec s OpInit = snd (store_init s)"
| "exec s (OpGet k f) = s"
| "exec s (OpSet k v f) = snd (store_set s k v f)"
| "exec s (OpDelete k) = snd (store_delete s k)"
| "exec s OpSync = snd (store_sync s)"
| "exec s (OpCreateBackup t) = snd (store_createBackup s t)"
| "exec s OpGetVersion = s"
| "exec s OpDispose = store_dispose s"

definition run :: "'a KeyValueStore \<Rightarrow> op list \<Rightarrow> 'a KeyValueStore" where
  "run s ops = foldl exec s ops"

section \<open>The file adapter (adapters/file-adapter.ts)\<close>

text \<open>
  The files the adapter reads and writes: the text at each path that exists, and the
  paths where a write fails. \<^verbatim>\<open>Bun.file(path).text()\<close> throws when there is no file.
\<close>

record filesystem =
  files :: "string \<Rightarrow> string option"
  unwritable :: "string \<Rightarrow> bool"

definition Bun_write :: "filesystem \<Rightarrow> string \<Rightarrow> string \<Rightarrow> thrown option \<times> filesystem" where
  "Bun_write fs path text =
     (if unwritable fs path then (Some ''write failed'', fs)
      else (None, fs\<lparr>files := (files fs)(path \<mapsto> text)\<rparr>))"

record FileAdapter =
  filePath :: string
  cache :: jsval

text \<open>The constructor: the path of the configuration and an empty cache.\<close>

definition FileAdapter_new :: "string \<Rightarrow> FileAdapter" where
  "FileAdapter_new path = \<lparr>filePath = path, cache = JObj []\<rparr>"

text \<open>
  \<^verbatim>\<open>writeFile()\<close>. \<open>stringify\<close> is \<^verbatim>\<open>JSON.stringify(_, null, 2)\<close> of the runtime.
\<close>

definition FileAdapter_writeFile ::
  "(jsval \<Rightarrow> string) \<Rightarrow> FileAdapter \<Rightarrow> filesystem \<Rightarrow> thrown option \<times> filesystem" where
  "FileAdapter_writeFile stringify fa fs = Bun_write fs (filePath fa) (stringify (cache fa))"

text \<open>
  \<^verbatim>\<open>init()\<close>. \<open>parse\<close> is \<^verbatim>\<open>JSON.parse\<close> of the runtime, \<open>None\<close> when it throws. The
  \<^verbatim>\<open>catch\<close> block is entered when reading or parsing throws; the test on the type of
  the parsed root is inside the \<^verbatim>\<open>try\<close> block and does not throw.
\<close>

definition FileAdapter_init ::
  "(string \<Rightarrow> jsval option) \<Rightarrow> (jsval \<Rightarrow> string) \<Rightarrow> FileAdapter \<Rightarrow> filesystem \<Rightarrow>
     thrown option \<times> FileAdapter \<times> filesystem" where
  "FileAdapter_init parse stringify fa fs =
     (let on_catch =
            (let fa1 = fa\<lparr>cache := JObj []\<rparr> in
             case FileAdapter_writeFile stringify fa1 fs of (r, fs1) \<Rightarrow> (r, fa1, fs1))
      in case files fs (filePath fa) of
           None \<Rightarrow> on_catch
         | Some fileData \<Rightarrow>
             (case parse fileData of
                None \<Rightarrow> on_catch
              | Some root \<Rightarrow>
                  (if typeof root \<noteq> ''object'' \<or> root = JNull
                   then (None, fa\<lparr>cache := JObj []\<rparr>, fs)
                   else (None, fa\<lparr>cache := root\<rparr>, fs))))"

section \<open>Definitions used to state the properties\<close>

subsection \<open>What the specification says sync writes\<close>

text \<open>
  The specification of \<^verbatim>\<open>sync\<close>: the version counter under the reserved key when
  versioning is enabled, then every entry of the map except the reserved key; each of
  them written with one call of the adapter's \<^verbatim>\<open>set\<close>, in this order, until a call
  throws.
\<close>

definition sync_writes :: "'a KeyValueStore \<Rightarrow> (string \<times> jsval) list" where
  "sync_writes s =
     (if version s \<ge> 0 then [(''__version__'', JNum (version s))] else []) @
     filter (\<lambda>p. fst p \<noteq> ''__version__'') (memoryMap s)"

fun write_each :: "'a adapter \<Rightarrow> (string \<times> jsval) list \<Rightarrow> thrown option \<times> 'a adapter" where
  "write_each a [] = (None, a)"
| "write_each a (p # ps) =
     (case adapter_set a (fst p) (snd p) of
        (Some e, a1) \<Rightarrow> (Some e, a1)
      | (None, a1) \<Rightarrow> write_each a1 ps)"

subsection \<open>Counting calls\<close>

text \<open>A sequence made of \<^verbatim>\<open>set\<close> and \<^verbatim>\<open>delete\<close> calls only.\<close>

fun is_mutation :: "op \<Rightarrow> bool" where
  "is_mutation (OpSet k v f) = True"
| "is_mutation (OpDelete k) = True"
| "is_mutation _ = False"

text \<open>The number of calls of a sequence after which the map differs from the map before.\<close>

fun observable_changes :: "'a KeyValueStore \<Rightarrow> op list \<Rightarrow> nat" where
  "observable_changes s [] = 0"
| "observable_changes s (c # cs) =
     (if memoryMap (exec s c) \<noteq> memoryMap s then 1 else 0) + observable_changes (exec s c) cs"

text \<open>
  The number of \<^verbatim>\<open>set\<close> calls of a sequence that return a value, plus the number of
  \<^verbatim>\<open>delete\<close> calls whose key is in the map when they are made.
\<close>

fun effective :: "'a KeyValueStore \<Rightarrow> op \<Rightarrow> bool" where
  "effective s (OpSet k v f) = (case fst (store_set s k v f) of Inl e \<Rightarrow> False | Inr w \<Rightarrow> True)"
| "effective s (OpDelete k) = (case k of JStr k' \<Rightarrow> Map_has (memoryMap s) k' | _ \<Rightarrow> False)"
| "effective s _ = False"

fun effective_calls :: "'a KeyValueStore \<Rightarrow> op list \<Rightarrow> nat" where
  "effective_calls s [] = 0"
| "effective_calls s (c # cs) = (if effective s c then 1 else 0) + effective_calls (exec s c) cs"

subsection \<open>Concrete adapters, hooks and documents for the examples\<close>

text \<open>
  An adapter that keeps the persisted entries and the list of writes it received. It
  enumerates its entries with \<^verbatim>\<open>all\<close> and has no \<^verbatim>\<open>backup\<close>.
\<close>

definition recording_adapter ::
  "jsmap \<Rightarrow> (jsmap \<times> (string \<times> jsval) list) adapter" where
  "recording_adapter persisted =
     \<lparr>ad_state = (persisted, []),
      ad_init = (\<lambda>st. (None, st)),
      ad_get = (\<lambda>st k. (Inr (js_prop (fst st) k), st)),
      ad_set = (\<lambda>st k v. (None, (Map_set (fst st) k v, snd st @ [(k, v)]))),
      ad_delete = (\<lambda>st k. (None, (Map_delete (fst st) k, snd st))),
      ad_all = Some (\<lambda>st. (Inr (fst st), st)),
      ad_backup = None\<rparr>"

definition versioned_config :: "'a adapter option \<Rightarrow> 'a KeyValueStoreConfig" where
  "versioned_config a =
     \<lparr>cfg_adapter = a, cfg_hooks = None, syncIntervalMs = None, enableVersioning = Some True\<rparr>"

definition plain_config :: "unit KeyValueStoreConfig" where
  "plain_config =
     \<lparr>cfg_adapter = None, cfg_hooks = None, syncIntervalMs = None, enableVersioning = None\<rparr>"

text \<open>A versioned store whose hooks all return normally.\<close>

definition hooked_config :: "unit KeyValueStoreConfig" where
  "hooked_config =
     \<lparr>cfg_adapter = None,
      cfg_hooks = Some \<lparr>onUpdate = Some (\<lambda>k v. Returns), onDelete = Some (\<lambda>k. Returns),
                        onBackup = Some (\<lambda>t n. Returns)\<rparr>,
      syncIntervalMs = None,
      enableVersioning = Some True\<rparr>"

text \<open>
  A store whose update hook is \<^verbatim>\<open>async () => { throw new Error("Hook error") }\<close>:
  the call returns a promise that rejects.
\<close>

definition rejecting_config :: "unit KeyValueStoreConfig" where
  "rejecting_config =
     \<lparr>cfg_adapter = None,
      cfg_hooks = Some \<lparr>onUpdate = Some (\<lambda>k v. ReturnsPromise (Rejected ''Hook error'')),
                        onDelete = None, onBackup = None\<rparr>,
      syncIntervalMs = None,
      enableVersioning = None\<rparr>"

text \<open>The same hook written without \<^verbatim>\<open>async\<close>: the call throws.\<close>

definition throwing_config :: "unit KeyValueStoreConfig" where
  "throwing_config =
     \<lparr>cfg_adapter = None,
      cfg_hooks = Some \<lparr>onUpdate = Some (\<lambda>k v. Throws ''Hook error''),
                        onDelete = None, onBackup = None\<rparr>,
      syncIntervalMs = None,
      enableVersioning = None\<rparr>"

text \<open>A validator that accepts numbers only, as in the tests of the package.\<close>

definition numberValidator :: validator where
  "numberValidator val = (case val of JNum n \<Rightarrow> Inr val | _ \<Rightarrow> Inl ''Value must be a number'')"

text \<open>A validator that wraps its input in a structure that contains itself.\<close>

definition cyclicValidator :: validator where
  "cyclicValidator val = Inr JCyclic"

text \<open>
  \<^verbatim>\<open>JSON.parse\<close> and \<^verbatim>\<open>JSON.stringify(_, null, 2)\<close> on the few documents of the
  examples: an empty object, an object with one entry, a number, and a text that is not
  JSON.
\<close>

definition example_parse :: "string \<Rightarrow> jsval option" where
  "example_parse text =
     (if text = ''{}'' then Some (JObj [])
      else if text = ''42'' then Some (JNum 42)
      else if text = ''{\"a\": 1}'' then Some (JObj [(''a'', JNum 1)])
      else None)"

definition example_stringify :: "jsval \<Rightarrow> string" where
  "example_stringify v =
     (if v = JObj [] then ''{}''
      else if v = JNum 42 then ''42''
      else ''{\"a\": 1}'')"

definition example_fs :: "string \<Rightarrow> filesystem" where
  "example_fs text =
     \<lparr>files = (\<lambda>p. if p = ''store.json'' then Some text else None),
      unwritable = (\<lambda>p. False)\<rparr>"

definition example_FileAdapter :: FileAdapter where
  "example_FileAdapter = FileAdapter_new ''store.json''"

text \<open>A versioned store without adapter or hooks.\<close>

definition versioned_store :: "unit KeyValueStore" where
  "versioned_store = store_new (versioned_config None)"

text \<open>
  A versioned store over an empty adapter after three \<^verbatim>\<open>set\<close> calls, one of them on
  the reserved key.
\<close>

definition synced_example :: "(jsmap \<times> (string \<times> jsval) list) KeyValueStore" where
  "synced_example =
     run (store_new (versioned_config (Some (recording_adapter []))))
       [OpSet (JStr ''b'') (JNum 1) None,
        OpSet (JStr ''__version__'') (JStr ''mine'') None,
        OpSet (JStr ''a'') (JNum 2) None]"

text \<open>A new versioned store over an adapter that holds a counter of 7 and one entry.\<close>

definition persisted_example :: "(jsmap \<times> (string \<times> jsval) list) KeyValueStore" where
  "persisted_example =
     store_new (versioned_config
       (Some (recording_adapter [(''__version__'', JNum 7), (''name'', JStr ''Brandon'')])))"

text \<open>
  A versioned store after two \<^verbatim>\<open>set\<close> calls, over an adapter that holds the counter 1
  (as an earlier \<^verbatim>\<open>sync\<close> of another store on the same target leaves it).
\<close>

definition stale_example :: "(jsmap \<times> (string \<times> jsval) list) KeyValueStore" where
  "stale_example =
     run (store_new (versioned_config (Some (recording_adapter [(''__version__'', JNum 1)]))))
       [OpSet (JStr ''a'') (JNum 1) None, OpSet (JStr ''b'') (JNum 2) None]"

text \<open>A new versioned store over a document whose reserved key holds a negative number.\<close>

definition negative_example :: "(jsmap \<times> (string \<times> jsval) list) KeyValueStore" where
  "negative_example =
     store_new (versioned_config (Some (recording_adapter [(''__version__'', JNum (- 5))])))"

section \<open>Basic facts about the map and the hooks\<close>

lemma map_of_Map_set: "map_of (Map_set m k v) = (map_of m)(k \<mapsto> v)"
  by (induction m) auto

lemma Map_get_Map_set: "Map_get (Map_set m k v) k = v"
  by (simp add: Map_get_def map_of_Map_set)

lemma memoryMap_fire_hook: "memoryMap (fire_hook l c out s) = memoryMap s"
  by (simp add: fire_hook_def split: option.splits hook_outcome.splits settled.splits)

lemma version_fire_hook: "version (fire_hook l c out s) = version s"
  by (simp add: fire_hook_def split: option.splits hook_outcome.splits settled.splits)

lemma adapter_fire_hook: "adapter (fire_hook l c out s) = adapter s"
  by (simp add: fire_hook_def split: option.splits hook_outcome.splits settled.splits)

text \<open>What a \<^verbatim>\<open>set\<close> that passes the probe and the validator returns and leaves.\<close>

lemma store_set_ok:
  assumes "\<not> json_stringify_throws v" "(case vo of None \<Rightarrow> Inr v | Some f \<Rightarrow> f v) = Inr w"
  shows "fst (store_set s (JStr k) v vo) = Inr w"
    and "memoryMap (snd (store_set s (JStr k) v vo)) = Map_set (memoryMap s) k w"
    and "version (snd (store_set s (JStr k) v vo)) =
           (if version s \<ge> 0 then version s + 1 else version s)"
  using assms by (simp_all add: store_set_def Let_def memoryMap_fire_hook version_fire_hook)

section \<open>Properties of set and get\<close>

text \<open>
  C1. For every string key \<open>k\<close> and every value \<open>v\<close> that \<^verbatim>\<open>JSON.stringify\<close> encodes
  without throwing, \<^verbatim>\<open>set(k, v)\<close> without a validator returns \<open>v\<close>, and \<^verbatim>\<open>get(k)\<close>
  without a validator, called on the state it leaves, returns \<open>v\<close>.
\<close>

theorem set_then_get:
  "\<not> json_stringify_throws v \<Longrightarrow>
     fst (store_set s (JStr k) v None) = Inr v \<and>
     store_get (snd (store_set s (JStr k) v None)) (JStr k) None = Inr v"
  by (simp add: store_set_ok store_get_def Map_get_Map_set)

theorem set_then_get_witness:
  "\<not> json_stringify_throws (JObj [(''name'', JStr ''Brandon''), (''tags'', JArr [JNum 1, JNull])]) \<and>
   fst (store_set (store_new plain_config) (JStr ''user'')
          (JObj [(''name'', JStr ''Brandon''), (''tags'', JArr [JNum 1, JNull])]) None)
     = Inr (JObj [(''name'', JStr ''Brandon''), (''tags'', JArr [JNum 1, JNull])]) \<and>
   store_get (snd (store_set (store_new plain_config) (JStr ''user'')
          (JObj [(''name'', JStr ''Brandon''), (''tags'', JArr [JNum 1, JNull])]) None))
       (JStr ''user'') None
     = Inr (JObj [(''name'', JStr ''Brandon''), (''tags'', JArr [JNum 1, JNull])])"
  using set_then_get [of "JObj [(''name'', JStr ''Brandon''), (''tags'', JArr [JNum 1, JNull])]"
      "store_new plain_config" "''user''"]
  by simp

text \<open>
  C2. For every store state, string key \<open>k\<close> and value \<open>v\<close>: when \<^verbatim>\<open>set(k, v)\<close> is called
  with a validator that throws on \<open>v\<close>, the call throws and the state of the store is the
  state before the call: the entry of \<open>k\<close> or its absence, the version counter and the
  rest of the map are unchanged. The exception is the validator's own, unless the probe
  of \<open>v\<close> with \<^verbatim>\<open>JSON.stringify\<close> has thrown before the validator is run.
\<close>

theorem set_validator_throws:
  "f v = Inl e \<Longrightarrow>
     store_set s (JStr k) v (Some f) =
       (Inl (if json_stringify_throws v then Error ''Value must be JSON serializable''
             else Thrown e), s)"
  by (simp add: store_set_def)

theorem set_validator_throws_witness:
  "numberValidator (JStr ''not a number'') = Inl ''Value must be a number'' \<and>
   store_set (snd (store_set (store_new hooked_config) (JStr ''count'') (JNum 42) (Some numberValidator)))
       (JStr ''count'') (JStr ''not a number'') (Some numberValidator) =
     (Inl (Thrown ''Value must be a number''),
      snd (store_set (store_new hooked_config) (JStr ''count'') (JNum 42) (Some numberValidator))) \<and>
   store_get (snd (store_set (store_new hooked_config) (JStr ''count'') (JNum 42) (Some numberValidator)))
       (JStr ''count'') None = Inr (JNum 42)"
  using set_validator_throws [of numberValidator "JStr ''not a number''" "''Value must be a number''"
      "snd (store_set (store_new hooked_config) (JStr ''count'') (JNum 42) (Some numberValidator))"
      "''count''"]
  by (simp add: numberValidator_def store_set_def store_get_def store_new_def hooked_config_def
      fire_hook_def Map_get_def)

text \<open>
  C10. With a string key, \<^verbatim>\<open>set\<close> throws the error "Value must be JSON serializable"
  exactly when \<^verbatim>\<open>JSON.stringify\<close> throws on the value it was given, whatever the
  validator is or does, and it then leaves the store as it was. When the probe passes and
  the validator returns \<open>w\<close>, the call returns \<open>w\<close> and stores it without probing it: there
  are a validator and an input for which \<^verbatim>\<open>set\<close> succeeds and the map holds a value on
  which \<^verbatim>\<open>JSON.stringify\<close> throws.
\<close>

theorem serialization_probe:
  "(fst (store_set s (JStr k) v vo) = Inl (Error ''Value must be JSON serializable'')
      \<longleftrightarrow> json_stringify_throws v) \<and>
   (json_stringify_throws v \<longrightarrow> snd (store_set s (JStr k) v vo) = s) \<and>
   (\<not> json_stringify_throws v \<and> f v = Inr w \<longrightarrow>
      fst (store_set s (JStr k) v (Some f)) = Inr w \<and>
      Map_get (memoryMap (snd (store_set s (JStr k) v (Some f)))) k = w) \<and>
   (\<exists>g x y. \<not> json_stringify_throws x \<and> g x = Inr y \<and> json_stringify_throws y \<and>
      fst (store_set s (JStr k) x (Some g)) = Inr y \<and>
      Map_get (memoryMap (snd (store_set s (JStr k) x (Some g)))) k = y)"
proof (intro conjI)
  show "(fst (store_set s (JStr k) v vo) = Inl (Error ''Value must be JSON serializable''))
      = json_stringify_throws v"
    by (auto simp: store_set_def Let_def split: option.splits sum.splits)
  show "json_stringify_throws v \<longrightarrow> snd (store_set s (JStr k) v vo) = s"
    by (simp add: store_set_def)
  show "\<not> json_stringify_throws v \<and> f v = Inr w \<longrightarrow>
      fst (store_set s (JStr k) v (Some f)) = Inr w \<and>
      Map_get (memoryMap (snd (store_set s (JStr k) v (Some f)))) k = w"
    by (simp add: store_set_ok Map_get_Map_set)
  have "\<not> json_stringify_throws JNull \<and> cyclicValidator JNull = Inr JCyclic \<and>
      json_stringify_throws JCyclic \<and>
      fst (store_set s (JStr k) JNull (Some cyclicValidator)) = Inr JCyclic \<and>
      Map_get (memoryMap (snd (store_set s (JStr k) JNull (Some cyclicValidator)))) k = JCyclic"
    by (simp add: store_set_ok Map_get_Map_set cyclicValidator_def)
  then show "\<exists>g x y. \<not> json_stringify_throws x \<and> g x = Inr y \<and> json_stringify_throws y \<and>
      fst (store_set s (JStr k) x (Some g)) = Inr y \<and>
      Map_get (memoryMap (snd (store_set s (JStr k) x (Some g)))) k = y"
    by blast
qed

theorem serialization_probe_witness:
  "json_stringify_throws (JObj [(''prop'', JStr ''value''), (''self'', JCyclic)]) \<and>
   store_set (store_new plain_config) (JStr ''circular'')
       (JObj [(''prop'', JStr ''value''), (''self'', JCyclic)]) (Some numberValidator) =
     (Inl (Error ''Value must be JSON serializable''), store_new plain_config) \<and>
   \<not> json_stringify_throws (JNum 1) \<and> cyclicValidator (JNum 1) = Inr JCyclic \<and>
   fst (store_set (store_new plain_config) (JStr ''k'') (JNum 1) (Some cyclicValidator)) = Inr JCyclic \<and>
   Map_get (memoryMap (snd (store_set (store_new plain_config) (JStr ''k'') (JNum 1)
       (Some cyclicValidator)))) ''k'' = JCyclic"
  using serialization_probe [of "store_new plain_config" "''circular''"
      "JObj [(''prop'', JStr ''value''), (''self'', JCyclic)]" "Some numberValidator"
      numberValidator JNull]
    serialization_probe [of "store_new plain_config" "''k''" "JNum 1" "Some cyclicValidator"
      cyclicValidator JCyclic]
  by (simp add: cyclicValidator_def prod_eq_iff)

section \<open>Setting undefined\<close>

text \<open>
  C3. The claim: \<^verbatim>\<open>set(k, undefined)\<close> deletes \<open>k\<close>, so that afterwards the map has no
  entry for \<open>k\<close> and the effects are those of \<^verbatim>\<open>delete\<close>. The code at a new versioned
  store with hooks: \<^verbatim>\<open>set("key", undefined)\<close> returns \<^verbatim>\<open>undefined\<close>, leaves the entry
  \<open>(key, undefined)\<close> in the map, for which \<^verbatim>\<open>has\<close> is true, moves the version from 0
  to 1 and calls the update hook; \<^verbatim>\<open>delete("key")\<close> on the same store changes nothing.
\<close>

theorem set_undefined_keeps_entry:
  "store_set (store_new hooked_config) (JStr ''key'') JUndefined None =
     (Inr JUndefined,
      (store_new hooked_config)
        \<lparr>memoryMap := [(''key'', JUndefined)], version := 1,
         hook_calls := [CallUpdate ''key'' JUndefined]\<rparr>) \<and>
   Map_has [(''key'', JUndefined)] ''key'' \<and>
   store_delete (store_new hooked_config) (JStr ''key'') = (Inr (), store_new hooked_config)"
  by (simp add: store_set_def store_delete_def store_new_def hooked_config_def fire_hook_def
      Map_has_def)

section \<open>Hooks\<close>

text \<open>
  The hooks of a store have no influence on what \<^verbatim>\<open>set\<close>, \<^verbatim>\<open>delete\<close> and
  \<^verbatim>\<open>createBackup\<close> return, nor on the map and the version they leave.
\<close>

lemma set_result_without_hooks:
  "fst (store_set (s\<lparr>hooks := h\<rparr>) k v f) = fst (store_set s k v f) \<and>
   memoryMap (snd (store_set (s\<lparr>hooks := h\<rparr>) k v f)) = memoryMap (snd (store_set s k v f)) \<and>
   version (snd (store_set (s\<lparr>hooks := h\<rparr>) k v f)) = version (snd (store_set s k v f))"
  by (simp add: store_set_def Let_def memoryMap_fire_hook version_fire_hook
      split: jsval.splits option.splits sum.splits)

lemma delete_result_without_hooks:
  "fst (store_delete (s\<lparr>hooks := h\<rparr>) k) = fst (store_delete s k) \<and>
   memoryMap (snd (store_delete (s\<lparr>hooks := h\<rparr>) k)) = memoryMap (snd (store_delete s k)) \<and>
   version (snd (store_delete (s\<lparr>hooks := h\<rparr>) k)) = version (snd (store_delete s k))"
  by (simp add: store_delete_def Let_def memoryMap_fire_hook version_fire_hook
      split: jsval.splits)

lemma createBackup_result_without_hooks:
  "fst (store_createBackup (s\<lparr>hooks := h\<rparr>) t) = fst (store_createBackup s t) \<and>
   memoryMap (snd (store_createBackup (s\<lparr>hooks := h\<rparr>) t)) =
     memoryMap (snd (store_createBackup s t)) \<and>
   version (snd (store_createBackup (s\<lparr>hooks := h\<rparr>) t)) =
     version (snd (store_createBackup s t))"
  by (simp add: store_createBackup_def Let_def memoryMap_fire_hook version_fire_hook
      split: option.splits prod.splits)

lemma thrown_hook_is_logged:
  "console_error (fire_hook l c (Some (Throws e)) s) = console_error s @ [(l, e)]"
  by (simp add: fire_hook_def)

lemma rejected_hook_is_not_logged:
  "console_error (fire_hook l c (Some (ReturnsPromise (Rejected e))) s) = console_error s"
  by (simp add: fire_hook_def)

text \<open>
  C7. The claim: a failure of a hook, thrown or as a rejected promise, is caught at the
  call site and logged, and changes neither the result nor the map and version. The code
  at a store whose update hook returns a promise that rejects: \<^verbatim>\<open>set("key", "value")\<close>
  returns the value and stores it, but nothing is written with \<^verbatim>\<open>console.error\<close> and
  the rejection is left without a handler. The same hook throwing synchronously is
  caught and logged.
\<close>

theorem rejected_hook_not_caught:
  "store_set (store_new rejecting_config) (JStr ''key'') (JStr ''value'') None =
     (Inr (JStr ''value''),
      (store_new rejecting_config)
        \<lparr>memoryMap := [(''key'', JStr ''value'')],
         hook_calls := [CallUpdate ''key'' (JStr ''value'')],
         dropped_rejections := [''Hook error'']\<rparr>) \<and>
   console_error (snd (store_set (store_new rejecting_config) (JStr ''key'') (JStr ''value'') None))
     = [] \<and>
   console_error (snd (store_set (store_new throwing_config) (JStr ''key'') (JStr ''value'') None))
     = [(''onUpdate hook failed:'', ''Hook error'')]"
  by (simp add: store_set_def store_new_def rejecting_config_def throwing_config_def fire_hook_def)

section \<open>The version counter\<close>

lemma version_store_set: "version s \<le> version (snd (store_set s k v f))"
  by (simp add: store_set_def Let_def version_fire_hook
      split: jsval.splits option.splits sum.splits)

lemma version_store_delete: "version s \<le> version (snd (store_delete s k))"
  by (simp add: store_delete_def Let_def version_fire_hook split: jsval.splits)

lemma version_store_sync: "version (snd (store_sync s)) = version s"
  by (simp add: store_sync_def split: option.splits prod.splits)

lemma version_store_createBackup: "version (snd (store_createBackup s t)) = version s"
  by (simp add: store_createBackup_def Let_def version_fire_hook split: option.splits prod.splits)

lemma version_exec_mono: "c \<noteq> OpInit \<Longrightarrow> version s \<le> version (exec s c)"
  by (cases c)
    (simp_all add: version_store_set version_store_delete version_store_sync
      version_store_createBackup store_dispose_def)

lemma version_run_mono: "OpInit \<notin> set cs \<Longrightarrow> version s \<le> version (run s cs)"
proof (induction cs arbitrary: s)
  case Nil
  then show ?case by (simp add: run_def)
next
  case (Cons c cs)
  have "version s \<le> version (exec s c)"
    using Cons.prems by (auto intro: version_exec_mono)
  moreover have "version (exec s c) \<le> version (run (exec s c) cs)"
    using Cons.prems by (simp add: Cons.IH)
  ultimately show ?case by (simp add: run_def)
qed

lemma version_store_init_disabled: "version s < 0 \<Longrightarrow> version (snd (store_init s)) = version s"
  by (simp add: store_init_def Let_def split: option.splits prod.splits sum.splits jsval.splits)

lemma version_exec_disabled: "version s = - 1 \<Longrightarrow> version (exec s c) = - 1"
  by (cases c)
    (simp_all add: version_store_init_disabled version_store_sync version_store_createBackup
      store_dispose_def store_set_def store_delete_def Let_def version_fire_hook
      split: jsval.splits option.splits sum.splits)

lemma version_run_disabled: "version s = - 1 \<Longrightarrow> version (run s cs) = - 1"
  by (induction cs arbitrary: s) (simp_all add: run_def version_exec_disabled)

text \<open>
  C4, as amended. In every state reached by any sequence of calls from a store
  constructed with versioning disabled, the version is \<open>-1\<close>. A store constructed with
  versioning enabled starts at 0. No sequence of calls without \<^verbatim>\<open>init\<close> (get, set,
  delete, sync, createBackup, getVersion, dispose) decreases the version of any state,
  so without \<^verbatim>\<open>init\<close> the version of a store constructed with versioning enabled stays
  non-negative.
\<close>

theorem version_invariant:
  "(enableVersioning cfg \<noteq> Some True \<longrightarrow> store_getVersion (run (store_new cfg) cs) = - 1) \<and>
   (enableVersioning cfg = Some True \<longrightarrow> store_getVersion (store_new cfg) = 0) \<and>
   (OpInit \<notin> set cs \<longrightarrow> store_getVersion s \<le> store_getVersion (run s cs)) \<and>
   (enableVersioning cfg = Some True \<and> OpInit \<notin> set cs \<longrightarrow>
      0 \<le> store_getVersion (run (store_new cfg) cs))"
proof (intro conjI impI)
  assume "enableVersioning cfg \<noteq> Some True"
  then have "version (store_new cfg) = - 1" by (simp add: store_new_def)
  then show "store_getVersion (run (store_new cfg) cs) = - 1"
    by (simp add: store_getVersion_def version_run_disabled)
next
  assume "enableVersioning cfg = Some True"
  then show "store_getVersion (store_new cfg) = 0"
    by (simp add: store_getVersion_def store_new_def)
next
  assume "OpInit \<notin> set cs"
  then show "store_getVersion s \<le> store_getVersion (run s cs)"
    by (simp add: store_getVersion_def version_run_mono)
next
  assume a: "enableVersioning cfg = Some True \<and> OpInit \<notin> set cs"
  then have "version (store_new cfg) = 0" by (simp add: store_new_def)
  moreover have "version (store_new cfg) \<le> version (run (store_new cfg) cs)"
    using a by (simp add: version_run_mono)
  ultimately show "0 \<le> store_getVersion (run (store_new cfg) cs)"
    by (simp add: store_getVersion_def)
qed

theorem version_invariant_witness:
  "enableVersioning plain_config \<noteq> Some True \<and>
   store_getVersion (run (store_new plain_config)
      [OpSet (JStr ''a'') (JNum 1) None, OpInit, OpDelete (JStr ''a''), OpSync]) = - 1 \<and>
   enableVersioning hooked_config = Some True \<and>
   store_getVersion (store_new hooked_config) = 0 \<and>
   OpInit \<notin> set [OpSet (JStr ''a'') (JNum 1) None, OpGet (JStr ''a'') None, OpSync,
                   OpDelete (JStr ''a''), OpCreateBackup 1700000000000, OpGetVersion] \<and>
   store_getVersion (store_new hooked_config) \<le>
     store_getVersion (run (store_new hooked_config)
       [OpSet (JStr ''a'') (JNum 1) None, OpGet (JStr ''a'') None, OpSync,
        OpDelete (JStr ''a''), OpCreateBackup 1700000000000, OpGetVersion]) \<and>
   0 \<le> store_getVersion (run (store_new hooked_config)
       [OpSet (JStr ''a'') (JNum 1) None, OpGet (JStr ''a'') None, OpSync,
        OpDelete (JStr ''a''), OpCreateBackup 1700000000000, OpGetVersion])"
  using version_invariant [of plain_config
      "[OpSet (JStr ''a'') (JNum 1) None, OpInit, OpDelete (JStr ''a''), OpSync]"
      "store_new plain_config"]
    version_invariant [of hooked_config
      "[OpSet (JStr ''a'') (JNum 1) None, OpGet (JStr ''a'') None, OpSync,
        OpDelete (JStr ''a''), OpCreateBackup 1700000000000, OpGetVersion]"
      "store_new hooked_config"]
  by (simp add: plain_config_def hooked_config_def)

text \<open>
  The claim as stated fails on \<^verbatim>\<open>init\<close>: on a versioned store at version 2 over an
  adapter that holds the counter 1, \<^verbatim>\<open>init\<close> sets the version to 1; over a document
  that holds \<open>-5\<close>, \<^verbatim>\<open>init\<close> sets the version of a new versioned store to \<open>-5\<close>.
\<close>

theorem version_not_monotone_on_init:
  "store_getVersion stale_example = 2 \<and>
   store_getVersion (exec stale_example OpInit) = 1 \<and>
   \<not> store_getVersion stale_example \<le> store_getVersion (exec stale_example OpInit) \<and>
   store_getVersion negative_example = 0 \<and>
   store_getVersion (exec negative_example OpInit) = - 5 \<and>
   \<not> 0 \<le> store_getVersion (exec negative_example OpInit)"
  by (simp add: stale_example_def negative_example_def run_def store_getVersion_def store_set_def
      store_init_def store_new_def versioned_config_def recording_adapter_def fire_hook_def
      no_hooks_def js_prop_def)

lemma version_exec_mutation:
  "is_mutation c \<Longrightarrow> 0 \<le> version s \<Longrightarrow>
     version (exec s c) = version s + (if effective s c then 1 else 0)"
  by (cases c)
    (simp_all add: store_set_def store_delete_def Let_def version_fire_hook
      split: jsval.splits option.splits sum.splits)

lemma version_run_mutations:
  "\<forall>c \<in> set cs. is_mutation c \<Longrightarrow> 0 \<le> version s \<Longrightarrow>
     version (run s cs) = version s + int (effective_calls s cs)"
proof (induction cs arbitrary: s)
  case Nil
  then show ?case by (simp add: run_def)
next
  case (Cons c cs)
  have step: "version (exec s c) = version s + (if effective s c then 1 else 0)"
    using Cons.prems by (simp add: version_exec_mutation)
  then have "0 \<le> version (exec s c)"
    using Cons.prems by simp
  then have "version (run (exec s c) cs) = version (exec s c) + int (effective_calls (exec s c) cs)"
    using Cons.prems by (simp add: Cons.IH)
  then show ?case
    using step by (simp add: run_def)
qed

text \<open>
  C5, as amended. For a store constructed with versioning enabled, after any sequence of
  \<^verbatim>\<open>set\<close> and \<^verbatim>\<open>delete\<close> calls \<^verbatim>\<open>getVersion()\<close> is the number of \<^verbatim>\<open>set\<close> calls that
  returned a value (whether or not they changed the map) plus the number of \<^verbatim>\<open>delete\<close>
  calls whose key was present; a \<^verbatim>\<open>delete\<close> of an absent key changes nothing.
\<close>

theorem version_counts_effective_calls:
  "enableVersioning cfg = Some True \<Longrightarrow> \<forall>c \<in> set cs. is_mutation c \<Longrightarrow>
     store_getVersion (run (store_new cfg) cs) = int (effective_calls (store_new cfg) cs) \<and>
     (\<not> Map_has (memoryMap s) k \<longrightarrow> store_delete s (JStr k) = (Inr (), s))"
proof
  assume a: "enableVersioning cfg = Some True" "\<forall>c \<in> set cs. is_mutation c"
  then have "version (store_new cfg) = 0" by (simp add: store_new_def)
  then show "store_getVersion (run (store_new cfg) cs) = int (effective_calls (store_new cfg) cs)"
    using a(2) by (simp add: store_getVersion_def version_run_mutations)
  show "\<not> Map_has (memoryMap s) k \<longrightarrow> store_delete s (JStr k) = (Inr (), s)"
    by (simp add: store_delete_def)
qed

theorem version_counts_effective_calls_witness:
  "enableVersioning (versioned_config None :: unit KeyValueStoreConfig) = Some True \<and>
   is_mutation (OpSet (JStr ''count'') (JNum 1) None) \<and>
   is_mutation (OpSet (JStr ''count'') (JNum 2) None) \<and>
   is_mutation (OpDelete (JStr ''count'')) \<and>
   store_getVersion (run versioned_store
      [OpSet (JStr ''count'') (JNum 1) None, OpSet (JStr ''count'') (JNum 2) None,
       OpDelete (JStr ''count''), OpDelete (JStr ''count'')]) = 3 \<and>
   effective_calls versioned_store
      [OpSet (JStr ''count'') (JNum 1) None, OpSet (JStr ''count'') (JNum 2) None,
       OpDelete (JStr ''count''), OpDelete (JStr ''count'')] = 3 \<and>
   \<not> Map_has (memoryMap versioned_store) ''count'' \<and>
   store_delete versioned_store (JStr ''count'') = (Inr (), versioned_store)"
  using version_counts_effective_calls [of "versioned_config None :: unit KeyValueStoreConfig"
      "[OpSet (JStr ''count'') (JNum 1) None, OpSet (JStr ''count'') (JNum 2) None,
        OpDelete (JStr ''count''), OpDelete (JStr ''count'')]" versioned_store "''count''"]
  by (simp add: versioned_store_def versioned_config_def store_new_def store_set_def
      store_delete_def fire_hook_def no_hooks_def Map_has_def Map_delete_def)

text \<open>
  The claim as stated counts the calls that changed the map: two \<^verbatim>\<open>set\<close> calls that
  write the same value under the same key give version 2, and only the first changed the
  map.
\<close>

theorem version_counts_rewrites:
  "store_getVersion (run versioned_store
      [OpSet (JStr ''a'') (JNum 1) None, OpSet (JStr ''a'') (JNum 1) None]) = 2 \<and>
   observable_changes versioned_store
      [OpSet (JStr ''a'') (JNum 1) None, OpSet (JStr ''a'') (JNum 1) None] = 1 \<and>
   store_getVersion (run versioned_store
      [OpSet (JStr ''a'') (JNum 1) None, OpSet (JStr ''a'') (JNum 1) None]) \<noteq>
   int (observable_changes versioned_store
      [OpSet (JStr ''a'') (JNum 1) None, OpSet (JStr ''a'') (JNum 1) None]) \<and>
   memoryMap (run versioned_store [OpSet (JStr ''a'') (JNum 1) None]) =
   memoryMap (run versioned_store
      [OpSet (JStr ''a'') (JNum 1) None, OpSet (JStr ''a'') (JNum 1) None])"
  by (simp add: versioned_store_def run_def store_getVersion_def store_set_def store_new_def
      versioned_config_def fire_hook_def no_hooks_def)

section \<open>Synchronisation with the adapter\<close>

lemma sync_entries_write_each:
  "sync_entries a m = write_each a (filter (\<lambda>p. fst p \<noteq> ''__version__'') m)"
  by (induction m arbitrary: a) (auto split: prod.splits option.splits)

text \<open>
  C6. Without an adapter \<^verbatim>\<open>sync()\<close> returns and changes nothing. With an adapter it
  makes the calls of \<open>sync_writes\<close> in order, one \<^verbatim>\<open>adapter.set\<close> per key: the version
  under \<^verbatim>\<open>"__version__"\<close> first when versioning is enabled (the counter is not negative),
  then each entry of the map except the reserved key; it throws what the first failing
  call throws.
\<close>

theorem sync_writes_in_order:
  "(adapter s = None \<longrightarrow> store_sync s = (Inr (), s)) \<and>
   (adapter s = Some a \<longrightarrow>
      store_sync s =
        (case write_each a (sync_writes s) of
           (None, a') \<Rightarrow> (Inr (), s\<lparr>adapter := Some a'\<rparr>)
         | (Some e, a') \<Rightarrow> (Inl (Thrown e), s\<lparr>adapter := Some a'\<rparr>)))"
  by (auto simp: store_sync_def sync_writes_def sync_entries_write_each
      split: prod.splits option.splits)

lemma synced_example_eval:
  "synced_example =
     (store_new (versioned_config (Some (recording_adapter []))))
       \<lparr>memoryMap := [(''b'', JNum 1), (''__version__'', JStr ''mine''), (''a'', JNum 2)],
        version := 3\<rparr>"
  by (simp add: synced_example_def run_def store_set_def store_new_def versioned_config_def
      fire_hook_def no_hooks_def)

theorem sync_writes_in_order_witness:
  "adapter synced_example = Some (recording_adapter []) \<and>
   memoryMap synced_example = [(''b'', JNum 1), (''__version__'', JStr ''mine''), (''a'', JNum 2)] \<and>
   version synced_example = 3 \<and>
   store_sync synced_example =
     (Inr (),
      synced_example\<lparr>adapter := Some ((recording_adapter [])
        \<lparr>ad_state := ([(''__version__'', JNum 3), (''b'', JNum 1), (''a'', JNum 2)],
                      [(''__version__'', JNum 3), (''b'', JNum 1), (''a'', JNum 2)])\<rparr>)\<rparr>) \<and>
   adapter (store_new plain_config) = None \<and>
   store_sync (store_new plain_config) = (Inr (), store_new plain_config)"
  using sync_writes_in_order [of synced_example "recording_adapter []"]
    sync_writes_in_order [of "store_new plain_config" undefined]
  by (simp add: synced_example_eval store_new_def versioned_config_def plain_config_def
      sync_writes_def adapter_set_def recording_adapter_def)

section \<open>Loading from the adapter\<close>

lemma map_of_load_entries: "map_of (load_entries m ps) = map_of m ++ map_of (rev ps)"
  by (induction ps arbitrary: m) (auto simp: map_of_Map_set)

lemma map_of_rev_distinct: "distinct (map fst ps) \<Longrightarrow> map_of (rev ps) = map_of ps"
  by (subst map_of_inject_set) (simp_all add: rev_map [symmetric])

lemma Map_get_load_entries:
  "distinct (map fst ps) \<Longrightarrow> map_of ps k = Some v \<Longrightarrow> Map_get (load_entries m ps) k = v"
  by (simp add: Map_get_def map_of_load_entries map_of_rev_distinct map_add_def)

text \<open>
  C9. When the adapter of a store initialises, enumerates its entries with \<^verbatim>\<open>all\<close>, and
  the enumerated object has the property \<^verbatim>\<open>"__version__"\<close> with a number \<open>n\<close>, then
  \<^verbatim>\<open>init()\<close> returns, the reserved key is an entry of the map afterwards, and
  \<^verbatim>\<open>get("__version__")\<close> returns \<open>n\<close>; with versioning enabled \<^verbatim>\<open>getVersion()\<close> is \<open>n\<close>
  too.
\<close>

theorem init_loads_reserved_key:
  assumes "adapter s = Some a"
    and "ad_init a (ad_state a) = (None, st1)"
    and "ad_all a = Some all"
    and "all st1 = (Inr loadedData, st2)"
    and "distinct (map fst loadedData)"
    and "map_of loadedData ''__version__'' = Some (JNum n)"
  shows "fst (store_init s) = Inr () \<and>
         Map_has (memoryMap (snd (store_init s))) ''__version__'' \<and>
         store_get (snd (store_init s)) (JStr ''__version__'') None = Inr (JNum n) \<and>
         (0 \<le> version s \<longrightarrow> store_getVersion (snd (store_init s)) = n)"
proof -
  have m: "memoryMap (snd (store_init s)) = load_entries (memoryMap s) loadedData"
    using assms by (simp add: store_init_def Let_def js_prop_def split: jsval.splits)
  have g: "Map_get (load_entries (memoryMap s) loadedData) ''__version__'' = JNum n"
    using assms(5,6) by (rule Map_get_load_entries)
  have h: "Map_has (load_entries (memoryMap s) loadedData) ''__version__''"
    using assms(5,6)
    by (simp add: Map_has_def map_of_load_entries map_of_rev_distinct map_add_def)
  have r: "fst (store_init s) = Inr ()"
    using assms by (simp add: store_init_def Let_def)
  have v: "0 \<le> version s \<longrightarrow> store_getVersion (snd (store_init s)) = n"
    using assms by (simp add: store_init_def store_getVersion_def Let_def js_prop_def)
  show ?thesis
    using r h g v by (simp add: m store_get_def)
qed

theorem init_loads_reserved_key_witness:
  "fst (store_init persisted_example) = Inr () \<and>
   memoryMap (snd (store_init persisted_example)) =
     [(''__version__'', JNum 7), (''name'', JStr ''Brandon'')] \<and>
   Map_has (memoryMap (snd (store_init persisted_example))) ''__version__'' \<and>
   store_get (snd (store_init persisted_example)) (JStr ''__version__'') None = Inr (JNum 7) \<and>
   store_getVersion (snd (store_init persisted_example)) = 7"
  using init_loads_reserved_key [of persisted_example
      "recording_adapter [(''__version__'', JNum 7), (''name'', JStr ''Brandon'')]"
      "([(''__version__'', JNum 7), (''name'', JStr ''Brandon'')], [])"
      "\<lambda>st. (Inr (fst st), st)"
      "[(''__version__'', JNum 7), (''name'', JStr ''Brandon'')]"
      "([(''__version__'', JNum 7), (''name'', JStr ''Brandon'')], [])" 7]
  by (simp add: persisted_example_def store_new_def versioned_config_def recording_adapter_def
      store_init_def js_prop_def)

section \<open>Initialisation of the file adapter\<close>

text \<open>
  C8, as amended. When the file at the configured path holds a document that parses to
  an object (a value whose \<^verbatim>\<open>typeof\<close> is \<^verbatim>\<open>"object"\<close> and that is not \<^verbatim>\<open>null\<close>; an array
  is one), \<^verbatim>\<open>init()\<close> takes it as the cache and leaves the file alone. When the text of
  the file does not parse, \<^verbatim>\<open>init()\<close> resets the cache to the empty object and writes
  the empty document to the file (if the path can be written). When the document parses
  to a root that is not an object, \<^verbatim>\<open>init()\<close> resets the cache to the empty object and
  leaves the file as it is.
\<close>

theorem file_adapter_init_cases:
  "(files fs (filePath fa) = Some d \<and> parse d = Some root \<and>
      typeof root = ''object'' \<and> root \<noteq> JNull \<longrightarrow>
      FileAdapter_init parse stringify fa fs = (None, fa\<lparr>cache := root\<rparr>, fs)) \<and>
   (files fs (filePath fa) = Some d \<and> parse d = None \<and> \<not> unwritable fs (filePath fa) \<longrightarrow>
      FileAdapter_init parse stringify fa fs =
        (None, fa\<lparr>cache := JObj []\<rparr>,
         fs\<lparr>files := (files fs)(filePath fa \<mapsto> stringify (JObj []))\<rparr>)) \<and>
   (files fs (filePath fa) = Some d \<and> parse d = Some root \<and>
      (typeof root \<noteq> ''object'' \<or> root = JNull) \<longrightarrow>
      FileAdapter_init parse stringify fa fs = (None, fa\<lparr>cache := JObj []\<rparr>, fs))"
  by (auto simp: FileAdapter_init_def FileAdapter_writeFile_def Bun_write_def Let_def)

theorem file_adapter_init_cases_witness:
  "FileAdapter_init example_parse example_stringify example_FileAdapter
       (example_fs ''{\"a\": 1}'') =
     (None, example_FileAdapter\<lparr>cache := JObj [(''a'', JNum 1)]\<rparr>, example_fs ''{\"a\": 1}'') \<and>
   example_parse ''not json'' = None \<and>
   FileAdapter_init example_parse example_stringify example_FileAdapter (example_fs ''not json'') =
     (None, example_FileAdapter\<lparr>cache := JObj []\<rparr>, example_fs ''{}'') \<and>
   example_parse ''42'' = Some (JNum 42) \<and>
   FileAdapter_init example_parse example_stringify example_FileAdapter (example_fs ''42'') =
     (None, example_FileAdapter\<lparr>cache := JObj []\<rparr>, example_fs ''42'')"
  using file_adapter_init_cases [of "example_fs ''{\"a\": 1}''" example_FileAdapter
      "''{\"a\": 1}''" example_parse "JObj [(''a'', JNum 1)]" example_stringify]
    file_adapter_init_cases [of "example_fs ''not json''" example_FileAdapter
      "''not json''" example_parse JNull example_stringify]
    file_adapter_init_cases [of "example_fs ''42''" example_FileAdapter
      "''42''" example_parse "JNum 42" example_stringify]
  by (simp add: example_parse_def example_stringify_def example_fs_def example_FileAdapter_def
      FileAdapter_new_def fun_eq_iff)

text \<open>
  The claim as stated fails on a root that is not an object: for a file that holds
  \<^verbatim>\<open>42\<close>, \<^verbatim>\<open>init()\<close> resets the cache and the file still holds \<^verbatim>\<open>42\<close>, not the empty
  document.
\<close>

theorem file_adapter_init_keeps_non_object_file:
  "example_parse ''42'' = Some (JNum 42) \<and>
   typeof (JNum 42) \<noteq> ''object'' \<and>
   FileAdapter_init example_parse example_stringify example_FileAdapter (example_fs ''42'') =
     (None, example_FileAdapter\<lparr>cache := JObj []\<rparr>, example_fs ''42'') \<and>
   files (example_fs ''42'') ''store.json'' = Some ''42'' \<and>
   Some ''42'' \<noteq> Some (example_stringify (JObj []))"
  by (simp add: FileAdapter_init_def example_parse_def example_stringify_def example_fs_def
      example_FileAdapter_def FileAdapter_new_def)

end
